theory Spec2Isabelle
  imports Main "HOL-Library.Word" "HOL-Library.Signed_Division"
begin

section \<open>Parasitic traceroute over a netfilter queue: a model of nfqTrace.go\<close>

text \<open>
  The development follows the source file top to bottom: the packet and flow types taken
  from the packet library, the per-flow engine \<open>NFQueueTraceroute\<close> with its response timer,
  the flow extraction from an ICMP payload, the flow tracker and the observer.

  Conventions.
  \<^item> Go's \<open>uint8\<close> is \<open>8 word\<close>; Go's \<open>int\<close> is taken at its 64-bit width, \<open>64 word\<close>,
    read as two's complement; \<open>+\<close> wraps in both.
  \<^item> A goroutine that panics ends the process: the outcome \<open>Panics\<close> carries no state.
    A goroutine that blocks for ever on a channel send leaves the engine as it was at
    the send: the outcome \<open>Blocks\<close> carries that state, which the other goroutines go
    on using.
  \<^item> Every operation on one engine is taken as one atomic step.
  \<^item> The packet library's serializer and layer decoder are not part of this program;
    the functions that call them take them as a parameter.
\<close>

subsection \<open>Machine integers\<close>

type_synonym byte = "8 word"
type_synonym go_int = "64 word"

text \<open>Go's \<open>%\<close> on \<open>int\<close> truncates towards zero; the caller checks the divisor first.\<close>

definition go_rem :: "go_int \<Rightarrow> go_int \<Rightarrow> go_int" where
  "go_rem a b = word_of_int (sint a smod sint b)"

subsection \<open>Packets, layers and verdicts\<close>

record IPv4 =
  TTL :: byte
  SrcIP :: "byte list"
  DstIP :: "byte list"

record TCP =
  SrcPort :: "16 word"
  DstPort :: "16 word"

text \<open>
  A decoded packet: \<open>Layer\<close> of the library returns nil when the packet has no layer of the
  type asked for.
\<close>

record Packet =
  ipv4Layer :: "IPv4 option"
  tcpLayer :: "TCP option"

datatype Verdict = NF_ACCEPT | NF_REPEAT

text \<open>
  What a call hands to the queue for one diverted packet: \<open>SetVerdict v\<close> or
  \<open>SetModifiedVerdict v bytes\<close>, where the byte slice may be nil (\<open>None\<close>).
\<close>

datatype VerdictCall = SetVerdict Verdict | SetModifiedVerdict Verdict "byte list option"

type_synonym serializer = "IPv4 \<Rightarrow> TCP \<Rightarrow> byte list option"

subsection \<open>Outcomes of a call\<close>

datatype panic =
  SendOnClosedChannel | CloseOfClosedChannel | IntegerDivideByZero
  | SliceBoundsOutOfRange | NilPointerDereference

datatype 'a outcome = Returns 'a | Blocks 'a | Panics panic

subsection \<open>The per-flow engine\<close>

datatype chan = Open | Closed

text \<open>
  Where the goroutine started by \<open>StartResponseTimer\<close> is: waiting in its \<open>select\<close>,
  running the body of the timeout case, or returned.
\<close>

datatype timer_goroutine = InSelect | InTimeoutCase | TimerReturned

record NFQueueTraceroute =
  ttl :: byte
  ttlMax :: byte
  ttlRepeat :: go_int
  ttlRepeatMax :: go_int
  mangleFreq :: go_int
  count :: go_int
  traceResult :: "byte \<rightharpoonup> byte list list"
  stopped :: bool
  responseTimedOut :: bool
  stopTimerChannel :: chan
  restartTimerChannel :: chan
  timer :: timer_goroutine

text \<open>
  \<open>NewNFQueueTraceroute\<close>; the fields \<open>receivePacketChannel\<close> and \<open>resumeTimerChannel\<close> are
  never set nor used and are left out. \<open>StartResponseTimer\<close> starts the timer goroutine,
  which goes to its \<open>select\<close>.
\<close>

definition NewNFQueueTraceroute :: "byte \<Rightarrow> go_int \<Rightarrow> go_int \<Rightarrow> NFQueueTraceroute" where
  "NewNFQueueTraceroute tMax rMax mFreq =
     \<lparr> ttl = 1, ttlMax = tMax, ttlRepeat = 1, ttlRepeatMax = rMax, mangleFreq = mFreq,
       count = 1, traceResult = Map.empty, stopped = False, responseTimedOut = False,
       stopTimerChannel = Open, restartTimerChannel = Open, timer = InSelect \<rparr>"

text \<open>
  \<open>Stop\<close>: set \<open>stopped\<close>, send on \<open>stopTimerChannel\<close>, close both channels. The channels
  are unbuffered. A send on a closed channel panics; a send on an open channel completes
  when the timer goroutine is in its \<open>select\<close> (it receives and returns) and otherwise
  never does.
\<close>

definition Stop :: "NFQueueTraceroute \<Rightarrow> NFQueueTraceroute outcome" where
  "Stop n =
     (let n1 = n\<lparr>stopped := True\<rparr> in
      if stopTimerChannel n1 = Closed then Panics SendOnClosedChannel
      else if timer n1 \<noteq> InSelect then Blocks n1
      else
        let n2 = n1\<lparr>timer := TimerReturned\<rparr>;
            n3 = n2\<lparr>stopTimerChannel := Closed\<rparr>
        in if restartTimerChannel n3 = Closed then Panics CloseOfClosedChannel
           else Returns (n3\<lparr>restartTimerChannel := Closed\<rparr>))"

text \<open>
  The send \<open>n.restartTimerChannel <- true\<close>: the timer goroutine receives it in its
  \<open>select\<close> and goes round its loop.
\<close>

definition sendRestart :: "NFQueueTraceroute \<Rightarrow> NFQueueTraceroute outcome" where
  "sendRestart n =
     (if restartTimerChannel n = Closed then Panics SendOnClosedChannel
      else if timer n \<noteq> InSelect then Blocks n
      else Returns n)"

text \<open>
  The timeout case of the timer goroutine's \<open>select\<close>. It can only be taken while the
  goroutine is in its \<open>select\<close>; in any other state nothing happens. \<open>Stop\<close> is called by
  the timer goroutine itself here, hence outside its \<open>select\<close>.
\<close>

definition timerExpired :: "NFQueueTraceroute \<Rightarrow> NFQueueTraceroute outcome" where
  "timerExpired n =
     (if timer n \<noteq> InSelect then Returns n
      else
        let n1 = n\<lparr>timer := InTimeoutCase\<rparr> in
        if ttlMax n1 \<le> ttl n1 \<and> ttlRepeatMax n1 \<le>s ttlRepeat n1 then Stop n1
        else Returns (n1\<lparr>responseTimedOut := True, timer := InSelect\<rparr>))"

text \<open>\<open>serializeWithTTL\<close>: nil when a layer is missing or the serializer fails.\<close>

definition serializeWithTTL :: "serializer \<Rightarrow> Packet \<Rightarrow> byte \<Rightarrow> byte list option" where
  "serializeWithTTL ser p t =
     (case ipv4Layer p of
        None \<Rightarrow> None
      | Some ip \<Rightarrow>
          (case tcpLayer p of
             None \<Rightarrow> None
           | Some tcp \<Rightarrow> ser (ip\<lparr>TTL := t\<rparr>) tcp))"

text \<open>The two branches of \<open>processPacket\<close> that move on to the next TTL.\<close>

definition advanceTTL :: "NFQueueTraceroute \<Rightarrow> NFQueueTraceroute outcome" where
  "advanceTTL n =
     sendRestart (n\<lparr>ttl := ttl n + 1, ttlRepeat := 0, responseTimedOut := False\<rparr>)"

text \<open>
  \<open>processPacket\<close> of the engine: the calls made on the packet's verdict channel, and the
  outcome.
\<close>

definition processPacket ::
  "serializer \<Rightarrow> Packet \<Rightarrow> NFQueueTraceroute \<Rightarrow> VerdictCall list \<times> NFQueueTraceroute outcome" where
  "processPacket ser p n =
     (if stopped n then ([SetVerdict NF_ACCEPT], Returns n)
      else if mangleFreq n = 0 then ([], Panics IntegerDivideByZero)
      else if go_rem (count n) (mangleFreq n) = 0 then
        (let n1 = n\<lparr>ttlRepeat := ttlRepeat n + 1\<rparr> in
         case (if responseTimedOut n1 then advanceTTL n1
               else if ttlRepeat n1 = ttlRepeatMax n1 then advanceTTL n1
               else Returns n1) of
           Panics e \<Rightarrow> ([], Panics e)
         | Blocks b \<Rightarrow> ([], Blocks b)
         | Returns n2 \<Rightarrow>
             if ttlMax n2 < ttl n2 \<and> ttlRepeat n2 = ttlRepeatMax n2 - 1 then
               (case Stop n2 of
                  Returns n3 \<Rightarrow> ([SetVerdict NF_ACCEPT], Returns n3)
                | Blocks b \<Rightarrow> ([], Blocks b)
                | Panics e \<Rightarrow> ([], Panics e))
             else
               ([SetModifiedVerdict NF_REPEAT (serializeWithTTL ser p (ttl n2))],
                Returns (n2\<lparr>count := count n2 + 1\<rparr>)))
      else ([SetVerdict NF_ACCEPT], Returns (n\<lparr>count := count n + 1\<rparr>)))"

text \<open>\<open>replyReceived\<close>: a missing key of \<open>traceResult\<close> reads as the nil slice.\<close>

definition replyReceived :: "byte list \<Rightarrow> NFQueueTraceroute \<Rightarrow> NFQueueTraceroute outcome" where
  "replyReceived ip n =
     (let ips = (case traceResult n (ttl n) of None \<Rightarrow> [] | Some xs \<Rightarrow> xs) @ [ip];
          n1 = n\<lparr>traceResult := (traceResult n)(ttl n \<mapsto> ips)\<rparr>
      in if ttl n1 = ttlMax n1 \<and> ttlRepeatMax n1 \<le>s word_of_nat (length ips) then Stop n1
         else Returns n1)"

subsection \<open>Runs of one engine\<close>

text \<open>
  What happens to one engine, in order: a diverted packet of its flow, an ICMP reply for
  its flow, an expiry of its response timer.
\<close>

datatype event = Diverted Packet | Reply "byte list" | TimerExpires

definition step ::
  "serializer \<Rightarrow> event \<Rightarrow> NFQueueTraceroute \<Rightarrow> VerdictCall list \<times> NFQueueTraceroute outcome" where
  "step ser e n =
     (case e of
        Diverted p \<Rightarrow> processPacket ser p n
      | Reply ip \<Rightarrow> ([], replyReceived ip n)
      | TimerExpires \<Rightarrow> ([], timerExpired n))"

text \<open>
  A run lists, per event, the verdict calls made and the outcome. After a blocked call
  the engine is still there for the other goroutines, so the run goes on from the state
  at the send; a panic ends it.
\<close>

fun run ::
  "serializer \<Rightarrow> event list \<Rightarrow> NFQueueTraceroute
     \<Rightarrow> (VerdictCall list \<times> NFQueueTraceroute outcome) list" where
  "run ser [] n = []"
| "run ser (e # es) n =
     (let r = step ser e n
      in r # (case snd r of
                Panics x \<Rightarrow> []
              | Returns n' \<Rightarrow> run ser es n'
              | Blocks n' \<Rightarrow> run ser es n'))"



subsection \<open>Flows\<close>

datatype EndpointType = EndpointIPv4 | EndpointTCPPort

text \<open>A flow of the packet library: an endpoint type with the raw source and destination.\<close>

datatype Flow = Flow EndpointType "byte list" "byte list"

type_synonym flowKey = "Flow \<times> Flow"

definition NetworkFlow :: "IPv4 \<Rightarrow> Flow" where
  "NetworkFlow ip = Flow EndpointIPv4 (SrcIP ip) (DstIP ip)"

definition NewTCPPortEndpoint :: "16 word \<Rightarrow> byte list" where
  "NewTCPPortEndpoint p = [ucast (drop_bit 8 p), ucast p]"

definition TransportFlow :: "TCP \<Rightarrow> Flow" where
  "TransportFlow tcp =
     Flow EndpointTCPPort (NewTCPPortEndpoint (SrcPort tcp)) (NewTCPPortEndpoint (DstPort tcp))"

text \<open>
  \<open>binary.BigEndian.Uint16\<close>, for the slices of two bytes that
  \<open>getTCPFlowFromTCPHead\<close> passes to it.
\<close>

definition Uint16 :: "byte list \<Rightarrow> 16 word" where
  "Uint16 b = or (push_bit 8 (ucast (b ! 0))) (ucast (b ! 1))"

text \<open>
  \<open>getTCPFlowFromTCPHead\<close>: the slices \<open>data[0:2]\<close> and \<open>data[2:4]\<close> are taken within the
  length of \<open>data\<close>; its only caller passes eight bytes.
\<close>

definition getTCPFlowFromTCPHead :: "byte list \<Rightarrow> panic + Flow" where
  "getTCPFlowFromTCPHead data =
     (if length data < 4 then Inl SliceBoundsOutOfRange
      else
        let srcPort = Uint16 (take 2 data);
            dstPort = Uint16 (take 2 (drop 2 data))
        in Inr (Flow EndpointTCPPort (NewTCPPortEndpoint srcPort) (NewTCPPortEndpoint dstPort)))"

text \<open>
  The layer parser of the packet library, as \<open>getPacketFlow\<close> uses it: from the bytes, the
  contents of the variables \<open>ip\<close> and \<open>tcp\<close> after \<open>DecodeLayers\<close> (zero-valued where the
  parser did not fill them), the layer types it lists in \<open>decoded\<close>, and whether it
  returned an error. \<open>getPacketFlow\<close> never reads \<open>decoded\<close>.
\<close>

datatype LayerType = LayerTypeIPv4 | LayerTypeTCP

record Decoded =
  ip_var :: IPv4
  tcp_var :: TCP
  decoded :: "LayerType list"
  err :: bool

type_synonym decoder = "byte list \<Rightarrow> Decoded"

text \<open>
  \<open>getPacketFlow\<close>: on an error the slice \<open>packet[len(packet)-8 : len(packet)]\<close> is taken,
  whose lower bound is negative when the packet has fewer than eight bytes.
\<close>

definition getPacketFlow :: "decoder \<Rightarrow> byte list \<Rightarrow> panic + flowKey" where
  "getPacketFlow dec packet =
     (let d = dec packet in
      if err d then
        (if length packet < 8 then Inl SliceBoundsOutOfRange
         else
           let tcpHead = drop (length packet - 8) packet
           in case getTCPFlowFromTCPHead tcpHead of
                Inl e \<Rightarrow> Inl e
              | Inr tcpFlow \<Rightarrow> Inr (NetworkFlow (ip_var d), tcpFlow))
      else Inr (NetworkFlow (ip_var d), TransportFlow (tcp_var d)))"

subsection \<open>The flow tracker\<close>

text \<open>
  The map holds pointers to engines; the model holds the engine and writes it back after
  each call on it. The lock is left out: every operation is one atomic step.
\<close>

record FlowTracker =
  flowMap :: "flowKey \<rightharpoonup> NFQueueTraceroute"

definition NewFlowTracker :: FlowTracker where
  "NewFlowTracker = \<lparr> flowMap = Map.empty \<rparr>"

definition HasFlow :: "FlowTracker \<Rightarrow> flowKey \<Rightarrow> bool" where
  "HasFlow f flow = (flowMap f flow \<noteq> None)"

definition AddFlow :: "flowKey \<Rightarrow> NFQueueTraceroute \<Rightarrow> FlowTracker \<Rightarrow> FlowTracker" where
  "AddFlow flow nfqTrace f = f\<lparr>flowMap := (flowMap f)(flow \<mapsto> nfqTrace)\<rparr>"

definition Delete :: "flowKey \<Rightarrow> FlowTracker \<Rightarrow> FlowTracker" where
  "Delete flow f = f\<lparr>flowMap := (flowMap f)(flow := None)\<rparr>"

definition GetFlowTrace :: "FlowTracker \<Rightarrow> flowKey \<Rightarrow> NFQueueTraceroute option" where
  "GetFlowTrace f flow = flowMap f flow"

subsection \<open>The observer\<close>

record NFQueueTraceObserverOptions =
  opt_iface :: string
  opt_ttlMax :: byte
  opt_ttlRepeatMax :: go_int
  opt_mangleFreq :: go_int

text \<open>
  The observer: its options, its tracker, how often \<open>Close\<close> was called on the queue, and
  the channel \<open>done\<close> (here \<open>doneChannel\<close>).
\<close>

record NFQueueTraceObserver =
  options :: NFQueueTraceObserverOptions
  flowTracker :: FlowTracker
  nfqCloseCalls :: nat
  doneChannel :: chan

definition NewNFQueueTraceObserver :: "NFQueueTraceObserverOptions \<Rightarrow> NFQueueTraceObserver" where
  "NewNFQueueTraceObserver opts =
     \<lparr> options = opts, flowTracker = NewFlowTracker, nfqCloseCalls = 0, doneChannel = Open \<rparr>"

text \<open>
  \<open>processPacket\<close> of the observer: a packet without an IPv4 or a TCP layer is left
  without any call on its verdict channel.
\<close>

definition observer_processPacket ::
  "serializer \<Rightarrow> Packet \<Rightarrow> NFQueueTraceObserver
     \<Rightarrow> VerdictCall list \<times> NFQueueTraceObserver outcome" where
  "observer_processPacket ser p ob =
     (case ipv4Layer p of
        None \<Rightarrow> ([], Returns ob)
      | Some ip \<Rightarrow>
          (case tcpLayer p of
             None \<Rightarrow> ([], Returns ob)
           | Some tcp \<Rightarrow>
               let flow = (NetworkFlow ip, TransportFlow tcp);
                   ft = (if \<not> HasFlow (flowTracker ob) flow
                         then AddFlow flow
                                (NewNFQueueTraceroute (opt_ttlMax (options ob))
                                   (opt_ttlRepeatMax (options ob)) (opt_mangleFreq (options ob)))
                                (flowTracker ob)
                         else flowTracker ob)
               in (case GetFlowTrace ft flow of
                     None \<Rightarrow> ([], Panics NilPointerDereference)
                   | Some nfqTrace \<Rightarrow>
                       (case processPacket ser p nfqTrace of
                          (vs, Returns n') \<Rightarrow> (vs, Returns (ob\<lparr>flowTracker := AddFlow flow n' ft\<rparr>))
                        | (vs, Blocks n') \<Rightarrow> (vs, Blocks (ob\<lparr>flowTracker := AddFlow flow n' ft\<rparr>))
                        | (vs, Panics e) \<Rightarrow> (vs, Panics e)))))"

text \<open>
  The goroutine of \<open>Start\<close>: \<open>for true { select { ... } }\<close>. A statement list completes
  normally or by a \<open>break\<close>. A \<open>break\<close> inside a \<open>select\<close> clause ends the \<open>select\<close>
  statement, which then completes normally; the \<open>for\<close> statement ends only when its own
  body completes by a \<open>break\<close>.
\<close>

datatype completion = Normal | Break

text \<open>The clause the \<open>select\<close> takes: a packet received, or a receive on \<open>done\<close>.\<close>

datatype select_case = RecvPacket Packet | RecvDone

text \<open>The body of the clause taken; closing a closed channel panics.\<close>

definition select_clause ::
  "serializer \<Rightarrow> select_case \<Rightarrow> NFQueueTraceObserver
     \<Rightarrow> VerdictCall list \<times> (completion \<times> NFQueueTraceObserver) outcome" where
  "select_clause ser c ob =
     (case c of
        RecvPacket p \<Rightarrow>
          (case observer_processPacket ser p ob of
             (vs, Returns ob') \<Rightarrow> (vs, Returns (Normal, ob'))
           | (vs, Blocks ob') \<Rightarrow> (vs, Blocks (Normal, ob'))
           | (vs, Panics e) \<Rightarrow> (vs, Panics e))
      | RecvDone \<Rightarrow>
          (let ob1 = ob\<lparr>nfqCloseCalls := nfqCloseCalls ob + 1\<rparr> in
           if doneChannel ob1 = Closed then ([], Panics CloseOfClosedChannel)
           else ([], Returns (Break, ob1\<lparr>doneChannel := Closed\<rparr>))))"

text \<open>The \<open>select\<close> statement: a \<open>break\<close> of its clause is used up here.\<close>

definition select_stmt ::
  "serializer \<Rightarrow> select_case \<Rightarrow> NFQueueTraceObserver
     \<Rightarrow> VerdictCall list \<times> (completion \<times> NFQueueTraceObserver) outcome" where
  "select_stmt ser c ob =
     (case select_clause ser c ob of
        (vs, Returns (k, ob')) \<Rightarrow> (vs, Returns (Normal, ob'))
      | (vs, Blocks (k, ob')) \<Rightarrow> (vs, Blocks (Normal, ob'))
      | (vs, Panics e) \<Rightarrow> (vs, Panics e))"

text \<open>
  Where the consumer goroutine is after the clauses of a schedule have been taken one per
  iteration: back in its \<open>select\<close> (the loop goes on), out of the loop, blocked inside a
  call, or the process has panicked.
\<close>

datatype consumer = AtSelect NFQueueTraceObserver | LoopExited NFQueueTraceObserver
  | BlockedInCall NFQueueTraceObserver | Crashed panic

fun consumerLoop ::
  "serializer \<Rightarrow> select_case list \<Rightarrow> NFQueueTraceObserver \<Rightarrow> consumer" where
  "consumerLoop ser [] ob = AtSelect ob"
| "consumerLoop ser (c # cs) ob =
     (case snd (select_stmt ser c ob) of
        Panics e \<Rightarrow> Crashed e
      | Blocks (k, ob') \<Rightarrow> BlockedInCall ob'
      | Returns (Break, ob') \<Rightarrow> LoopExited ob'
      | Returns (Normal, ob') \<Rightarrow> consumerLoop ser cs ob')"

subsection \<open>Concrete inputs\<close>

text \<open>A TCP segment from 10.0.0.9:4000 to 10.0.0.1:2666, and a frame with no TCP layer.\<close>

definition tcpPacket :: Packet where
  "tcpPacket =
     \<lparr> ipv4Layer = Some \<lparr> TTL = 64, SrcIP = [10, 0, 0, 9], DstIP = [10, 0, 0, 1] \<rparr>,
       tcpLayer = Some \<lparr> SrcPort = 4000, DstPort = 2666 \<rparr> \<rparr>"


text \<open>A serializer that writes the TTL only, and one that always fails.\<close>

definition ttlSerializer :: serializer where
  "ttlSerializer ip tcp = Some [TTL ip]"

definition failingSerializer :: serializer where
  "failingSerializer ip tcp = None"

text \<open>The engine of the first scenario, and the same engine once stopped.\<close>

definition scenarioEngine :: NFQueueTraceroute where
  "scenarioEngine = NewNFQueueTraceroute 3 2 1"

definition stoppedEngine :: NFQueueTraceroute where
  "stoppedEngine =
     scenarioEngine\<lparr> stopped := True, stopTimerChannel := Closed,
                     restartTimerChannel := Closed, timer := TimerReturned \<rparr>"

text \<open>
  An instance of the decoder parameter for concrete payloads: an IPv4 header and a TCP
  header of 20 bytes each, no options; nothing to decode is no error, a header cut short
  is one, and the variables keep their zero value where nothing was decoded.
\<close>

definition zeroIPv4 :: IPv4 where
  "zeroIPv4 = \<lparr> TTL = 0, SrcIP = [], DstIP = [] \<rparr>"

definition zeroTCP :: TCP where
  "zeroTCP = \<lparr> SrcPort = 0, DstPort = 0 \<rparr>"

definition fixedHeaderDecoder :: decoder where
  "fixedHeaderDecoder data =
     (if data = []
      then \<lparr> ip_var = zeroIPv4, tcp_var = zeroTCP, decoded = [], err = False \<rparr>
      else if length data < 20
      then \<lparr> ip_var = zeroIPv4, tcp_var = zeroTCP, decoded = [], err = True \<rparr>
      else
        let ip = \<lparr> TTL = data ! 8, SrcIP = take 4 (drop 12 data),
                   DstIP = take 4 (drop 16 data) \<rparr>;
            rest = drop 20 data
        in if rest = []
           then \<lparr> ip_var = ip, tcp_var = zeroTCP, decoded = [LayerTypeIPv4], err = False \<rparr>
           else if length rest < 20
           then \<lparr> ip_var = ip, tcp_var = zeroTCP, decoded = [LayerTypeIPv4], err = True \<rparr>
           else \<lparr> ip_var = ip,
                  tcp_var = \<lparr> SrcPort = Uint16 (take 2 rest),
                              DstPort = Uint16 (take 2 (drop 2 rest)) \<rparr>,
                  decoded = [LayerTypeIPv4, LayerTypeTCP],
                  err = False \<rparr>)"


definition sevenBytePayload :: "byte list" where
  "sevenBytePayload = [69, 0, 0, 28, 0, 0, 0]"


text \<open>
  The first scenario: six diverted packets of the flow, alone and with two replies after
  each pair of packets.
\<close>

definition scenarioPackets :: "event list" where
  "scenarioPackets =
     [Diverted tcpPacket, Diverted tcpPacket, Diverted tcpPacket,
      Diverted tcpPacket, Diverted tcpPacket, Diverted tcpPacket]"

definition scenarioWithReplies :: "event list" where
  "scenarioWithReplies =
     [Diverted tcpPacket, Diverted tcpPacket, Reply [10, 0, 0, 1], Reply [10, 0, 0, 1],
      Diverted tcpPacket, Diverted tcpPacket, Reply [10, 0, 0, 2], Reply [10, 0, 0, 2],
      Diverted tcpPacket, Diverted tcpPacket, Reply [10, 0, 0, 3], Reply [10, 0, 0, 3]]"

text \<open>The observer that \<open>main\<close> builds.\<close>

definition mainObserver :: NFQueueTraceObserver where
  "mainObserver =
     NewNFQueueTraceObserver
       \<lparr> opt_iface = ''wlan0'', opt_ttlMax = 40, opt_ttlRepeatMax = 3, opt_mangleFreq = 6 \<rparr>"

text \<open>A verdict call with its replacement bytes, if it has any, set to nil.\<close>

fun nilBytes :: "VerdictCall \<Rightarrow> VerdictCall" where
  "nilBytes (SetModifiedVerdict v b) = SetModifiedVerdict v None"
| "nilBytes (SetVerdict v) = SetVerdict v"





section \<open>Properties\<close>

lemmas engine_defs = step_def processPacket_def advanceTTL_def sendRestart_def Stop_def
  replyReceived_def timerExpired_def go_rem_def signed_modulo_int_def serializeWithTTL_def
  NewNFQueueTraceroute_def scenarioEngine_def tcpPacket_def ttlSerializer_def Let_def
  word_le_nat_alt word_less_nat_alt word_sle_eq

subsection \<open>A stopped engine\<close>

lemma processPacket_stopped:
  "stopped n \<Longrightarrow> processPacket ser p n = ([SetVerdict NF_ACCEPT], Returns n)"
  by (simp add: processPacket_def)

lemma Stop_scenarioEngine: "Stop scenarioEngine = Returns stoppedEngine"
  by (simp add: Stop_def scenarioEngine_def stoppedEngine_def NewNFQueueTraceroute_def Let_def)

text \<open>
  Claim C4. Once \<open>stopped\<close> is set, every later \<open>processPacket\<close> makes the one call
  \<open>SetVerdict NF_ACCEPT\<close> and returns the engine as it was: no field changes, \<open>count\<close>
  included.
\<close>

theorem stopped_engine_accepts:
  assumes "stopped n"
  shows "run ser (map Diverted ps) n = map (\<lambda>p. ([SetVerdict NF_ACCEPT], Returns n)) ps"
  using assms by (induction ps) (simp_all add: step_def processPacket_stopped Let_def)

theorem stopped_engine_accepts_witness:
  "Stop scenarioEngine = Returns stoppedEngine \<and> stopped stoppedEngine \<and>
   run ttlSerializer (map Diverted [tcpPacket, tcpPacket]) stoppedEngine =
     [([SetVerdict NF_ACCEPT], Returns stoppedEngine),
      ([SetVerdict NF_ACCEPT], Returns stoppedEngine)]"
proof -
  have h: "stopped stoppedEngine" by (simp add: stoppedEngine_def)
  show ?thesis
    using h stopped_engine_accepts [OF h, of ttlSerializer "[tcpPacket, tcpPacket]"]
    by (simp add: Stop_scenarioEngine)
qed

subsection \<open>The response timer\<close>

text \<open>
  Claim C8. When the timer fires (its goroutine is in its \<open>select\<close>, the stop channel
  open): if \<open>ttl \<ge> ttlMax\<close> and \<open>ttlRepeat \<ge> ttlRepeatMax\<close> the engine has \<open>stopped\<close> set
  (the timer goroutine then stays in the send of its own \<open>Stop\<close>); otherwise
  \<open>responseTimedOut\<close> is set and nothing else changes, \<open>stopped\<close> included.
\<close>

theorem timerExpired_cases:
  assumes "timer n = InSelect" and "stopTimerChannel n = Open"
  shows "(ttlMax n \<le> ttl n \<and> ttlRepeatMax n \<le>s ttlRepeat n \<longrightarrow>
            (\<exists>n'. timerExpired n = Blocks n' \<and> stopped n'))
       \<and> (\<not> (ttlMax n \<le> ttl n \<and> ttlRepeatMax n \<le>s ttlRepeat n) \<longrightarrow>
            (\<exists>n'. timerExpired n = Returns n' \<and> n' = n\<lparr>responseTimedOut := True\<rparr>
                  \<and> responseTimedOut n' \<and> stopped n' = stopped n))"
  using assms by (simp add: timerExpired_def Stop_def Let_def)

theorem timerExpired_cases_witness:
  "timer scenarioEngine = InSelect \<and> stopTimerChannel scenarioEngine = Open
   \<and> \<not> (ttlMax scenarioEngine \<le> ttl scenarioEngine
          \<and> ttlRepeatMax scenarioEngine \<le>s ttlRepeat scenarioEngine)
   \<and> timerExpired scenarioEngine = Returns (scenarioEngine\<lparr>responseTimedOut := True\<rparr>)
   \<and> \<not> stopped (scenarioEngine\<lparr>responseTimedOut := True\<rparr>)
   \<and> (ttlMax (NewNFQueueTraceroute 1 1 1) \<le> ttl (NewNFQueueTraceroute 1 1 1)
        \<and> ttlRepeatMax (NewNFQueueTraceroute 1 1 1) \<le>s ttlRepeat (NewNFQueueTraceroute 1 1 1))
   \<and> (\<exists>n'. timerExpired (NewNFQueueTraceroute 1 1 1) = Blocks n' \<and> stopped n')"
proof -
  have a: "timer scenarioEngine = InSelect" "stopTimerChannel scenarioEngine = Open"
    by (simp_all add: scenarioEngine_def NewNFQueueTraceroute_def)
  have b: "timer (NewNFQueueTraceroute 1 1 1) = InSelect"
    "stopTimerChannel (NewNFQueueTraceroute 1 1 1) = Open"
    by (simp_all add: NewNFQueueTraceroute_def)
  show ?thesis
    using a b timerExpired_cases [OF a] timerExpired_cases [OF b]
    by (simp add: scenarioEngine_def NewNFQueueTraceroute_def word_le_nat_alt word_sle_eq)
qed

subsection \<open>The flow of an ICMP payload\<close>






text \<open>
  Claim C10 does not hold of the code: for every payload of fewer than eight bytes whose
  decoding reports an error, the slice \<open>packet[len(packet)-8 : len(packet)]\<close> is out of
  bounds and \<open>getPacketFlow\<close> panics instead of returning a key.
\<close>

theorem getPacketFlow_short_panics:
  "err (dec packet) \<Longrightarrow> length packet < 8 \<Longrightarrow>
   getPacketFlow dec packet = Inl SliceBoundsOutOfRange"
  by (simp add: getPacketFlow_def Let_def)

theorem getPacketFlow_short_panics_witness:
  "err (fixedHeaderDecoder sevenBytePayload) \<and> length sevenBytePayload < 8 \<and>
   getPacketFlow fixedHeaderDecoder sevenBytePayload = Inl SliceBoundsOutOfRange"
proof -
  have a: "err (fixedHeaderDecoder sevenBytePayload)"
    by (simp add: fixedHeaderDecoder_def sevenBytePayload_def)
  have b: "length sevenBytePayload < 8" by (simp add: sevenBytePayload_def)
  show ?thesis
    using a b getPacketFlow_short_panics [of fixedHeaderDecoder sevenBytePayload] by simp
qed

subsection \<open>The first scenario\<close>

text \<open>
  Claim C1 does not hold of the code. With \<open>ttlMax = 3\<close>, \<open>ttlRepeatMax = 2\<close>,
  \<open>mangleFreq = 1\<close>, six diverted packets get REPEAT with TTL 2, 2, 3, 3, 4 and then
  ACCEPT: \<open>ttlRepeat\<close> starts at 1 and is incremented before it is compared, so TTL 1 is
  never sent. With the replies of the scenario the engine is stopped by the second reply
  at TTL 3, the last two packets are accepted, and the next reply calls \<open>Stop\<close> again,
  which panics.
\<close>

theorem scenario1_verdicts:
  "map fst (run ttlSerializer scenarioPackets scenarioEngine) =
     [[SetModifiedVerdict NF_REPEAT (Some [2])], [SetModifiedVerdict NF_REPEAT (Some [2])],
      [SetModifiedVerdict NF_REPEAT (Some [3])], [SetModifiedVerdict NF_REPEAT (Some [3])],
      [SetModifiedVerdict NF_REPEAT (Some [4])], [SetVerdict NF_ACCEPT]]
   \<and> map fst (run ttlSerializer scenarioWithReplies scenarioEngine) =
     [[SetModifiedVerdict NF_REPEAT (Some [2])], [SetModifiedVerdict NF_REPEAT (Some [2])],
      [], [],
      [SetModifiedVerdict NF_REPEAT (Some [3])], [SetModifiedVerdict NF_REPEAT (Some [3])],
      [], [],
      [SetVerdict NF_ACCEPT], [SetVerdict NF_ACCEPT], []]
   \<and> snd (last (run ttlSerializer scenarioWithReplies scenarioEngine))
       = Panics SendOnClosedChannel"
  by (simp add: scenarioPackets_def scenarioWithReplies_def engine_defs)

subsection \<open>Stopping twice\<close>

text \<open>
  Claim C5 does not hold of the code. A first \<open>Stop\<close> from the processing path returns
  with both channels closed; a second \<open>Stop\<close> on that engine sends on the closed channel
  and panics. The second of two replies at \<open>ttl = ttlMax\<close> with \<open>ttlRepeatMax = 1\<close> does
  just that. From the timer path, \<open>Stop\<close> never returns: the timer goroutine is the only
  receiver of the channel it sends on.
\<close>

theorem Stop_twice_panics:
  "Stop scenarioEngine = Returns stoppedEngine
   \<and> Stop stoppedEngine = Panics SendOnClosedChannel
   \<and> snd (last (run ttlSerializer [Reply [10, 0, 0, 1], Reply [10, 0, 0, 1]]
                  (NewNFQueueTraceroute 1 1 1))) = Panics SendOnClosedChannel
   \<and> timerExpired (NewNFQueueTraceroute 1 1 1) =
       Blocks ((NewNFQueueTraceroute 1 1 1)\<lparr>stopped := True, timer := InTimeoutCase\<rparr>)"
  by (simp add: stoppedEngine_def engine_defs)

subsection \<open>A failing serializer\<close>

text \<open>
  Claim C6, as stated, fails: the first packet of the scenario is mangled, and with a
  serializer that fails the call made is \<open>SetModifiedVerdict NF_REPEAT\<close> with nil bytes,
  not an accept.
\<close>

theorem serialize_failure_counterexample:
  "serializeWithTTL failingSerializer tcpPacket 2 = None \<and>
   fst (processPacket failingSerializer tcpPacket scenarioEngine)
     = [SetModifiedVerdict NF_REPEAT None]"
  by (simp add: failingSerializer_def engine_defs)

text \<open>
  Claim C6, amended. When serialization of the packet fails, \<open>processPacket\<close> makes the
  verdict calls it makes with any other serializer, with nil for the replacement bytes:
  on the mangle path the verdict stays NF_REPEAT, and the engine ends in the same state.
\<close>

theorem serialize_failure_keeps_verdict:
  assumes "\<And>t. serializeWithTTL ser p t = None"
  shows "fst (processPacket ser p n) = map nilBytes (fst (processPacket ser' p n))
       \<and> snd (processPacket ser p n) = snd (processPacket ser' p n)"
  using assms by (simp add: processPacket_def Let_def split: outcome.splits)

theorem serialize_failure_keeps_verdict_witness:
  "(\<forall>t. serializeWithTTL failingSerializer tcpPacket t = None)
   \<and> fst (processPacket ttlSerializer tcpPacket scenarioEngine)
       = [SetModifiedVerdict NF_REPEAT (Some [2])]
   \<and> fst (processPacket failingSerializer tcpPacket scenarioEngine)
       = [SetModifiedVerdict NF_REPEAT None]"
proof -
  have h: "\<And>t. serializeWithTTL failingSerializer tcpPacket t = None"
    by (simp add: serializeWithTTL_def failingSerializer_def tcpPacket_def)
  have v: "fst (processPacket ttlSerializer tcpPacket scenarioEngine)
             = [SetModifiedVerdict NF_REPEAT (Some [2])]"
    by (simp add: engine_defs)
  show ?thesis
    using h v
      serialize_failure_keeps_verdict [of failingSerializer tcpPacket scenarioEngine ttlSerializer]
    by simp
qed

subsection \<open>The observer\<close>





subsection \<open>The consumer loop after the observer's Stop\<close>

lemma select_stmt_Normal: "snd (select_stmt ser c ob) \<noteq> Returns (Break, ob')"
  by (auto simp add: select_stmt_def split: prod.splits outcome.splits)

lemma consumerLoop_never_exits: "consumerLoop ser cs ob \<noteq> LoopExited ob'"
proof (induction cs arbitrary: ob)
  case Nil
  then show ?case by simp
next
  case (Cons c cs)
  show ?case
  proof (cases "snd (select_stmt ser c ob)")
    case (Returns x)
    obtain k ob1 where x: "x = (k, ob1)" by (cases x)
    with Returns select_stmt_Normal [of ser c ob ob1] have "k = Normal" by (cases k) auto
    with Returns x Cons.IH show ?thesis by simp
  next
    case (Blocks x)
    then show ?thesis by (simp split: prod.splits)
  next
    case (Panics e)
    then show ?thesis by simp
  qed
qed

text \<open>
  Claim C9 does not hold of the code. The \<open>break\<close> of the \<open>done\<close> clause ends the \<open>select\<close>
  only, so whatever clauses are taken the loop is never left. After the receive on
  \<open>done\<close> the goroutine is back in its \<open>select\<close> with the queue closed and \<open>done\<close> closed;
  a closed channel is always ready, and the next time that clause is taken the queue is
  closed again and closing \<open>done\<close> panics.
\<close>

theorem consumerLoop_after_Stop:
  "consumerLoop ser cs ob \<noteq> LoopExited ob'
   \<and> consumerLoop ser [RecvDone] mainObserver
       = AtSelect (mainObserver\<lparr>nfqCloseCalls := 1, doneChannel := Closed\<rparr>)
   \<and> consumerLoop ser [RecvDone, RecvDone] mainObserver = Crashed CloseOfClosedChannel"
  by (simp add: consumerLoop_never_exits select_stmt_def select_clause_def mainObserver_def
      NewNFQueueTraceObserver_def Let_def)

subsection \<open>The progression of the TTL\<close>










text \<open>A step from \<open>ttl = 255\<close> wraps round to 0: the field is a \<open>uint8\<close>.\<close>

lemma ttl_wraps_at_255:
  "snd (processPacket ser tcpPacket ((NewNFQueueTraceroute 255 2 1)\<lparr>ttl := 255\<rparr>))
     = Returns ((NewNFQueueTraceroute 255 2 1)\<lparr>ttl := 0, ttlRepeat := 0, count := 2\<rparr>)"
  by (simp add: engine_defs)












end
